theory Spec2Isabelle
  imports Main
begin

section \<open>Error barriers (package barriers, file barriers/barriers.go)\<close>

text \<open>
  A barrier replaces an error chain by a leaf error that keeps the message and the
  chain, but offers no \<^verbatim>\<open>Cause()\<close>/\<^verbatim>\<open>Unwrap()\<close> method. This theory embeds the
  functions of \<^verbatim>\<open>barriers.go\<close> and states their contracts.

  Conventions of the embedding:
  \<^item> a Go interface value of type \<^verbatim>\<open>error\<close> is an \<open>error option\<close>, \<open>None\<close> being
    \<^verbatim>\<open>nil\<close>;
  \<^item> a pointer is represented by the value it points to, so errors are immutable
    finite trees: typed nil pointers and cyclic chains have no counterpart;
  \<^item> a failed type assertion is a value \<open>Inl\<close> of type \<open>panic\<close>;
  \<^item> the engines of package \<^verbatim>\<open>errbase\<close> and of \<^verbatim>\<open>fmt\<close> that \<^verbatim>\<open>barriers.go\<close>
    only calls are either parameters (\<open>EncodeError\<close>, \<open>DecodeError\<close>, \<open>Sprintf\<close>,
    the \<^verbatim>\<open>%+v\<close> rendering, the type name of an error) or small definitions,
    each with a note on where its content comes from.
\<close>

subsection \<open>Data model\<close>

text \<open>
  \<open>barrierError\<close> is the struct of \<^verbatim>\<open>barriers.go\<close> with its two fields. \<open>OtherError\<close>
  stands for a value of any other error kind: what its \<^verbatim>\<open>Error()\<close> method returns,
  the strings its \<^verbatim>\<open>SafeDetails()\<close> method reports (none when it has no such
  method), and the cause its \<^verbatim>\<open>Cause()\<close>/\<^verbatim>\<open>Unwrap()\<close> method returns (\<open>None\<close> when it
  has no such method, or returns \<^verbatim>\<open>nil\<close>).
\<close>

datatype error =
    OtherError (otherMsg: string) (otherDetails: "string list") (otherCause: "error option")
  | barrierError (msg: string) (maskedErr: "error option")

text \<open>The run-time panic of a type assertion \<^verbatim>\<open>x.(T)\<close> on a value that is not a \<^verbatim>\<open>T\<close>.\<close>

datatype panic = InterfaceConversion

text \<open>
  A \<^verbatim>\<open>proto.Message\<close>: either a pointer to an \<^verbatim>\<open>errbase.EncodedError\<close>, whose
  content is left abstract, or a message of another type, identified by its name.
\<close>

datatype 'enc Message = EncodedError 'enc | OtherMessage string

text \<open>
  Modelled from the spec: the \<^verbatim>\<open>errbase.Printer\<close> that a \<^verbatim>\<open>FormatError\<close> method
  writes to is not part of \<^verbatim>\<open>barriers.go\<close>. It is a text sink that knows whether
  the detailed rendering was requested; \<open>out\<close> is the text printed so far.
\<close>

record printer =
  Detail :: bool
  out :: string

subsection \<open>The operations of errbase used by the barrier\<close>

text \<open>The \<^verbatim>\<open>Error()\<close> method, dispatched on the kind of the error.\<close>

fun Error :: "error \<Rightarrow> string" where
  "Error (OtherError m ds c) = m"
| "Error (barrierError m c) = m"

text \<open>
  Modelled from the spec: \<^verbatim>\<open>errbase.UnwrapOnce\<close> "returns the next inner cause of a
  chain, or null at the end"; it reaches the cause through the \<^verbatim>\<open>Cause()\<close> or
  \<^verbatim>\<open>Unwrap()\<close> method of the error. The method set of \<^verbatim>\<open>*barrierError\<close> in
  \<^verbatim>\<open>barriers.go\<close> is \<^verbatim>\<open>Error\<close>, \<^verbatim>\<open>SafeDetails\<close>, \<^verbatim>\<open>Format\<close> and \<^verbatim>\<open>FormatError\<close>: it has
  neither, so a barrier is the end of a chain.
\<close>

fun UnwrapOnce :: "error \<Rightarrow> error option" where
  "UnwrapOnce (OtherError m ds c) = c"
| "UnwrapOnce (barrierError m c) = None"

text \<open>
  The payload that \<^verbatim>\<open>errbase.GetSafeDetails\<close> returns for one link of a chain: the
  name of the type of the link and the strings the link reports.
\<close>

record SafeDetailPayload =
  OriginalTypeName :: string
  SafeDetails_field :: "string list"

text \<open>
  \<^verbatim>\<open>SafeDetailPayload.Fill\<close> belongs to \<^verbatim>\<open>errbase\<close>, not to \<^verbatim>\<open>barriers.go\<close>. As the
  library runs, it appends to the slice a header line that names the type of the
  link, \<^verbatim>\<open>-- details for <type>:::\<close>, and then the strings of the payload. The header
  is written for a payload without strings as well. This differs from the
  specification, which has nothing but the strings of a link appended.
\<close>

definition Fill :: "SafeDetailPayload \<Rightarrow> string list \<Rightarrow> string list" where
  "Fill s slice =
     (let slice1 = slice @ [''-- details for '' @ OriginalTypeName s @ '':::''];
          slice2 = slice1 @ SafeDetails_field s
      in slice2)"

text \<open>
  \<open>SafeDetails\<close> is the method of \<^verbatim>\<open>barriers.go\<close> on a barrier, and the own report
  of any other error kind. \<open>SafeDetails_loop err details\<close> is the state of its
  \<^verbatim>\<open>for\<close> loop: the link \<open>err\<close> to visit and the strings collected so far.

  Modelled from the spec: \<^verbatim>\<open>errbase.GetSafeDetails\<close> "returns this link's own
  privacy-safe diagnostic strings", which it obtains from the \<^verbatim>\<open>SafeDetails()\<close>
  method of the link. The payload carries the name of the type of the link besides;
  \<^verbatim>\<open>errbase\<close> computes that name, and it is the parameter \<open>typeName\<close> here.
\<close>

function SafeDetails :: "(error \<Rightarrow> string) \<Rightarrow> error \<Rightarrow> string list"
  and GetSafeDetails :: "(error \<Rightarrow> string) \<Rightarrow> error \<Rightarrow> SafeDetailPayload"
  and SafeDetails_loop :: "(error \<Rightarrow> string) \<Rightarrow> error option \<Rightarrow> string list \<Rightarrow> string list" where
  "SafeDetails typeName (OtherError m ds c) = ds"
| "SafeDetails typeName (barrierError m c) = SafeDetails_loop typeName c []"
| "GetSafeDetails typeName err =
     \<lparr>OriginalTypeName = typeName err, SafeDetails_field = SafeDetails typeName err\<rparr>"
| "SafeDetails_loop typeName None details = details"
| "SafeDetails_loop typeName (Some err) details =
     (let sd = GetSafeDetails typeName err
      in SafeDetails_loop typeName (UnwrapOnce err) (Fill sd details))"
  by pat_completeness auto
termination
  by (relation "measure (\<lambda>x. case x of
          Inl (tn, e) \<Rightarrow> 3 * size e
        | Inr (Inl (tn, e)) \<Rightarrow> 3 * size e + 1
        | Inr (Inr (tn, None, ds)) \<Rightarrow> 0
        | Inr (Inr (tn, Some e, ds)) \<Rightarrow> 3 * size e + 2)")
     (auto split: option.splits elim!: UnwrapOnce.elims)

text \<open>
  The links that repeated \<open>UnwrapOnce\<close> visits from an error, outermost first: the
  causal chain that \<^verbatim>\<open>Is\<close>, \<^verbatim>\<open>Cause\<close> and \<^verbatim>\<open>Unwrap\<close> recursions walk.
\<close>

function causalChain :: "error \<Rightarrow> error list" where
  "causalChain e = e # (case UnwrapOnce e of None \<Rightarrow> [] | Some c \<Rightarrow> causalChain c)"
  by pat_completeness auto
termination
  by (relation "measure size") (auto elim!: UnwrapOnce.elims)

declare causalChain.simps [simp del]

subsection \<open>Construction\<close>

definition HandledWithMessage :: "error option \<Rightarrow> string \<Rightarrow> error option" where
  "HandledWithMessage err m =
     (if err = None then None else Some (barrierError m err))"

definition Handled :: "error option \<Rightarrow> error option" where
  "Handled err =
     (case err of None \<Rightarrow> None | Some e \<Rightarrow> HandledWithMessage err (Error e))"

text \<open>\<open>Sprintf\<close> is \<^verbatim>\<open>fmt.Sprintf\<close>, a parameter; \<open>'arg\<close> is the type of its arguments.\<close>

definition HandledWithMessagef ::
  "(string \<Rightarrow> 'arg list \<Rightarrow> string) \<Rightarrow> error option \<Rightarrow> string \<Rightarrow> 'arg list \<Rightarrow> error option" where
  "HandledWithMessagef Sprintf err format args =
     (if err = None then None else Some (barrierError (Sprintf format args) err))"

subsection \<open>Formatting\<close>

definition Print :: "string \<Rightarrow> printer \<Rightarrow> printer" where
  "Print s p = p\<lparr>out := out p @ s\<rparr>"

text \<open>
  \<open>Printf_v verbose lit arg\<close> is the call \<^verbatim>\<open>p.Printf(lit + "%+v", arg)\<close>: the literal
  text, then the \<^verbatim>\<open>%+v\<close> rendering of the argument. That rendering belongs to the
  formatting engine and is the parameter \<open>verbose\<close>.
\<close>

definition Printf_v :: "(error option \<Rightarrow> string) \<Rightarrow> string \<Rightarrow> error option \<Rightarrow> printer \<Rightarrow> printer" where
  "Printf_v verbose lit arg p = p\<lparr>out := out p @ lit @ verbose arg\<rparr>"

text \<open>
  \<open>FormatError\<close> has a pointer receiver \<open>e\<close> and a printer it writes to. It returns
  the receiver and the printer as they are after the call, and the result \<^verbatim>\<open>next\<close>.
\<close>

definition FormatError ::
  "(error option \<Rightarrow> string) \<Rightarrow> error \<Rightarrow> printer \<Rightarrow> error \<times> printer \<times> error option" where
  "FormatError verbose e p =
     (let p1 = Print (msg e) p;
          p2 = (if Detail p1
                then Printf_v verbose
                       (CHR 0x0A # ''original cause behind barrier:'' @ [CHR 0x0A]) (maskedErr e) p1
                else p1)
      in (e, p2, None))"

subsection \<open>Wire codec\<close>

text \<open>
  \<open>EncodeError\<close> and \<open>DecodeError\<close> are the causal codec of \<^verbatim>\<open>errbase\<close>, parameters
  here; \<open>'ctx\<close> is \<^verbatim>\<open>context.Context\<close> and \<open>'enc\<close> is \<^verbatim>\<open>errbase.EncodedError\<close>.
  \<open>encodeBarrier\<close> calls \<open>SafeDetails\<close> and passes the parameter \<open>typeName\<close> on to it.
\<close>

definition encodeBarrier ::
  "('ctx \<Rightarrow> error option \<Rightarrow> 'enc) \<Rightarrow> (error \<Rightarrow> string) \<Rightarrow> 'ctx \<Rightarrow> error option
     \<Rightarrow> panic + (string \<times> string list \<times> 'enc Message option)" where
  "encodeBarrier EncodeError typeName ctx err =
     (case err of
        Some (barrierError m c) \<Rightarrow>
          (let e = barrierError m c;
               enc = EncodeError ctx (maskedErr e)
           in Inr (msg e, SafeDetails typeName e, Some (EncodedError enc)))
      | _ \<Rightarrow> Inl InterfaceConversion)"

definition decodeBarrier ::
  "('ctx \<Rightarrow> 'enc \<Rightarrow> error option) \<Rightarrow> 'ctx \<Rightarrow> string \<Rightarrow> string list \<Rightarrow> 'enc Message option
     \<Rightarrow> panic + error option" where
  "decodeBarrier DecodeError ctx m ignored payload =
     (case payload of
        Some (EncodedError enc) \<Rightarrow> Inr (Some (barrierError m (DecodeError ctx enc)))
      | _ \<Rightarrow> Inl InterfaceConversion)"

section \<open>Properties\<close>

subsection \<open>Auxiliary facts\<close>

lemma Handled_Some: "Handled (Some e) = Some (barrierError (Error e) (Some e))"
  by (simp add: Handled_def HandledWithMessage_def)

lemma barrier_neq_masked: "barrierError m (Some e) \<noteq> e"
proof
  assume "barrierError m (Some e) = e"
  then have "size (barrierError m (Some e)) = size e" by simp
  then show False by simp
qed

lemma Handled_funpow_Some: "\<exists>b. (Handled ^^ n) (Some e) = Some b \<and> Error b = Error e"
  by (induction n) (auto simp: Handled_Some)

lemma causalChain_barrier: "causalChain (barrierError m c) = [barrierError m c]"
  by (simp add: causalChain.simps [of "barrierError m c"])

lemma causalChain_None: "UnwrapOnce e = None \<Longrightarrow> causalChain e = [e]"
  by (simp add: causalChain.simps [of e])

lemma causalChain_Some: "UnwrapOnce e = Some c \<Longrightarrow> causalChain e = e # causalChain c"
  by (simp add: causalChain.simps [of e])

text \<open>Every link of a chain is a part of the error the chain starts from.\<close>

lemma causalChain_size: "x \<in> set (causalChain e) \<Longrightarrow> size x \<le> size e"
proof (induction e rule: causalChain.induct)
  case (1 e)
  show ?case
  proof (cases "UnwrapOnce e")
    case None
    with "1.prems" show ?thesis by (simp add: causalChain_None)
  next
    case (Some c)
    have "size c < size e" using Some by (auto elim!: UnwrapOnce.elims)
    with 1 Some show ?thesis by (auto simp: causalChain_Some)
  qed
qed

lemma barrier_not_in_chain: "barrierError m (Some e) \<notin> set (causalChain e)"
  using causalChain_size [of "barrierError m (Some e)" e] by auto






subsection \<open>Construction\<close>

text \<open>
  C7. Null propagation: each of the three constructors returns \<^verbatim>\<open>nil\<close> on a \<^verbatim>\<open>nil\<close>
  error, for every message, format string and argument list. The constructors are
  total functions; none of them has a failing result.
\<close>

theorem constructors_nil:
  "Handled None = None
   \<and> HandledWithMessage None m = None
   \<and> HandledWithMessagef Sprintf None format args = None"
  by (simp add: Handled_def HandledWithMessage_def HandledWithMessagef_def)

text \<open>
  C8. Message preservation: for a non-nil error \<open>e\<close>, \<open>Handled\<close> returns a non-nil
  barrier whose \<^verbatim>\<open>Error()\<close> is the \<^verbatim>\<open>Error()\<close> of \<open>e\<close> and whose masked cause is \<open>e\<close>.
\<close>

theorem Handled_preserves_message:
  "Handled (Some e) = Some (barrierError (Error e) (Some e))
   \<and> Handled (Some e) \<noteq> None
   \<and> map_option Error (Handled (Some e)) = Some (Error e)
   \<and> map_option maskedErr (Handled (Some e)) = Some (Some e)"
  by (simp add: Handled_def HandledWithMessage_def)

text \<open>
  C9. Message override: for a non-nil error \<open>e\<close> and any string \<open>m\<close>,
  \<open>HandledWithMessage\<close> returns a non-nil barrier whose \<^verbatim>\<open>Error()\<close> is \<open>m\<close>, whatever the
  message of \<open>e\<close> is, and whose masked cause is \<open>e\<close>.
\<close>

theorem HandledWithMessage_overrides_message:
  "HandledWithMessage (Some e) m = Some (barrierError m (Some e))
   \<and> HandledWithMessage (Some e) m \<noteq> None
   \<and> map_option Error (HandledWithMessage (Some e) m) = Some m
   \<and> map_option maskedErr (HandledWithMessage (Some e) m) = Some (Some e)"
  by (simp add: HandledWithMessage_def)

text \<open>
  C10. Barriers are not collapsed: \<open>Handled\<close> applied to a barrier wraps it again.
  The result masks the barrier it was given, differs from it, and has the same
  message; applying \<open>Handled\<close> once more to the \<open>n\<close>-fold barrier of \<open>e\<close> gives a
  barrier around that \<open>n\<close>-fold barrier, still with the message of \<open>e\<close>.
\<close>

theorem Handled_rewraps_barrier:
  "Handled (Handled (Some e)) = Some (barrierError (Error e) (Handled (Some e)))
   \<and> Handled (Handled (Some e)) \<noteq> Handled (Some e)
   \<and> map_option Error (Handled (Handled (Some e))) = map_option Error (Handled (Some e))
   \<and> (Handled ^^ Suc n) (Some e) = Some (barrierError (Error e) ((Handled ^^ n) (Some e)))
   \<and> (Handled ^^ Suc n) (Some e) \<noteq> (Handled ^^ n) (Some e)
   \<and> map_option Error ((Handled ^^ n) (Some e)) = Some (Error e)"
proof -
  obtain b where b: "(Handled ^^ n) (Some e) = Some b" "Error b = Error e"
    using Handled_funpow_Some by blast
  show ?thesis by (simp add: Handled_Some b barrier_neq_masked)
qed

subsection \<open>Masking\<close>

text \<open>
  C1. Masking invariant: whichever of the three constructors built it from a
  non-nil error \<open>e\<close>, the barrier \<open>x\<close> holds \<open>e\<close> but exposes no cause. \<open>UnwrapOnce\<close>
  returns \<^verbatim>\<open>nil\<close> on it, so the chain walked from it is the barrier alone;
  \<open>FormatError\<close> returns \<^verbatim>\<open>nil\<close> as the next error; neither \<open>e\<close> nor any link of the
  chain of \<open>e\<close> is met when walking from the barrier.
\<close>

theorem barrier_masks_cause:
  "b \<in> {Handled (Some e), HandledWithMessage (Some e) m,
        HandledWithMessagef Sprintf (Some e) format args} \<Longrightarrow>
   \<exists>x. b = Some x \<and> maskedErr x = Some e
     \<and> UnwrapOnce x = None
     \<and> causalChain x = [x]
     \<and> snd (snd (FormatError verbose x p)) = None
     \<and> e \<notin> set (causalChain x)
     \<and> set (causalChain e) \<inter> set (causalChain x) = {}"
proof -
  assume "b \<in> {Handled (Some e), HandledWithMessage (Some e) m,
        HandledWithMessagef Sprintf (Some e) format args}"
  then obtain m' where b: "b = Some (barrierError m' (Some e))"
    by (auto simp: Handled_Some HandledWithMessage_def HandledWithMessagef_def)
  have "e \<noteq> barrierError m' (Some e)" using barrier_neq_masked [of m' e] by metis
  moreover have "snd (snd (FormatError verbose (barrierError m' (Some e)) p)) = None"
    by (simp add: FormatError_def Let_def)
  ultimately show ?thesis
    using b barrier_not_in_chain [of m' e] by (simp add: causalChain_barrier)
qed

text \<open>
  The instance: a "disk full" error with one cause, handled by \<open>Handled\<close>.
\<close>

theorem barrier_masks_cause_witness:
  "Handled (Some (OtherError ''disk full'' [] (Some (OtherError ''io'' [''errno 28''] None))))
     \<in> {Handled (Some (OtherError ''disk full'' [] (Some (OtherError ''io'' [''errno 28''] None)))),
        HandledWithMessage (Some (OtherError ''disk full'' [] (Some (OtherError ''io'' [''errno 28''] None))))
          ''internal error'',
        HandledWithMessagef (\<lambda>f (args :: string list). concat (f # args))
          (Some (OtherError ''disk full'' [] (Some (OtherError ''io'' [''errno 28''] None))))
          ''code '' [''7'']}
   \<and> (\<exists>x. Handled (Some (OtherError ''disk full'' [] (Some (OtherError ''io'' [''errno 28''] None))))
            = Some x
        \<and> maskedErr x = Some (OtherError ''disk full'' [] (Some (OtherError ''io'' [''errno 28''] None)))
        \<and> UnwrapOnce x = None
        \<and> causalChain x = [x]
        \<and> snd (snd (FormatError (\<lambda>c. ''cause'') x \<lparr>Detail = True, out = ''''\<rparr>)) = None
        \<and> OtherError ''disk full'' [] (Some (OtherError ''io'' [''errno 28''] None))
             \<notin> set (causalChain x)
        \<and> set (causalChain (OtherError ''disk full'' [] (Some (OtherError ''io'' [''errno 28''] None))))
             \<inter> set (causalChain x) = {})"
  using barrier_masks_cause
    [of "Handled (Some (OtherError ''disk full'' [] (Some (OtherError ''io'' [''errno 28''] None))))"
        "OtherError ''disk full'' [] (Some (OtherError ''io'' [''errno 28''] None))"
        "''internal error''"
        "\<lambda>f (args :: string list). concat (f # args)" "''code ''" "[''7'']"
        "\<lambda>c. ''cause''" "\<lparr>Detail = True, out = ''''\<rparr>"]
  by simp

subsection \<open>Safe details\<close>




subsection \<open>Formatting\<close>

text \<open>
  C6. Two-level rendering: without the detail flag, \<open>FormatError\<close> prints the
  message and nothing more; with it, the message, then the label
  "original cause behind barrier:" on a line of its own, then the verbose rendering
  of the masked cause. In both cases the receiver, and with it the masked cause, is
  returned as it was, the flag of the printer is untouched, and there is no next
  error.
\<close>

theorem FormatError_two_levels:
  "FormatError verbose (barrierError m c) (p\<lparr>Detail := False\<rparr>) =
     (barrierError m c, p\<lparr>Detail := False, out := out p @ m\<rparr>, None)
   \<and> FormatError verbose (barrierError m c) (p\<lparr>Detail := True\<rparr>) =
     (barrierError m c,
      p\<lparr>Detail := True,
        out := out p @ m @ CHR 0x0A # ''original cause behind barrier:'' @ CHR 0x0A # verbose c\<rparr>,
      None)"
  by (simp add: FormatError_def Print_def Printf_v_def)

subsection \<open>Wire codec\<close>

text \<open>
  C4. Encoder contract: on a barrier, \<open>encodeBarrier\<close> returns the message, the
  result of \<open>SafeDetails\<close> on the barrier, and the encoding of the masked cause by
  the causal codec, wrapped as the payload. On \<^verbatim>\<open>nil\<close> and on an error of any other
  kind the type assertion panics; there is no error result.
\<close>

theorem encodeBarrier_contract:
  "encodeBarrier EncodeError typeName ctx (Some (barrierError m c)) =
     Inr (m, SafeDetails typeName (barrierError m c), Some (EncodedError (EncodeError ctx c)))
   \<and> encodeBarrier EncodeError typeName ctx None = Inl InterfaceConversion
   \<and> encodeBarrier EncodeError typeName ctx (Some (OtherError m' ds c')) = Inl InterfaceConversion"
  by (simp add: encodeBarrier_def del: SafeDetails.simps)

text \<open>
  C5. Decoder contract: on a payload that is an encoded error, \<open>decodeBarrier\<close>
  returns a barrier with exactly the given message, whose masked cause is the
  decoding of the payload by the causal codec. On a \<^verbatim>\<open>nil\<close> payload and on a message
  of another type the type assertion panics. The list of safe details it is given
  has no influence on the result, for any payload.
\<close>

theorem decodeBarrier_contract:
  "decodeBarrier DecodeError ctx m ds (Some (EncodedError enc)) =
     Inr (Some (barrierError m (DecodeError ctx enc)))
   \<and> decodeBarrier DecodeError ctx m ds None = Inl InterfaceConversion
   \<and> decodeBarrier DecodeError ctx m ds (Some (OtherMessage n)) = Inl InterfaceConversion
   \<and> decodeBarrier DecodeError ctx m ds payload = decodeBarrier DecodeError ctx m ds' payload"
  by (simp add: decodeBarrier_def)

text \<open>
  C2. Round trip: encoding the barrier \<open>Handled e\<close> of a non-nil error and decoding
  the three results gives, without panic, a barrier with the message of \<open>Handled e\<close>
  whose masked cause is the decoding of the encoding of \<open>e\<close> by the causal codec. How
  close that cause is to \<open>e\<close> is the codec's matter: where the codec returns \<open>e\<close>
  itself, the round trip returns \<open>Handled e\<close> itself.
\<close>

theorem encode_decode_round_trip:
  "(case encodeBarrier EncodeError typeName ctx (Handled (Some e)) of
      Inl pn \<Rightarrow> Inl pn
    | Inr (m, ds, payload) \<Rightarrow> decodeBarrier DecodeError ctx' m ds payload)
   = Inr (Some (barrierError (Error e) (DecodeError ctx' (EncodeError ctx (Some e)))))
   \<and> map_option Error (Some (barrierError (Error e) (DecodeError ctx' (EncodeError ctx (Some e)))))
     = map_option Error (Handled (Some e))
   \<and> (DecodeError ctx' (EncodeError ctx (Some e)) = Some e \<longrightarrow>
       (case encodeBarrier EncodeError typeName ctx (Handled (Some e)) of
          Inl pn \<Rightarrow> Inl pn
        | Inr (m, ds, payload) \<Rightarrow> decodeBarrier DecodeError ctx' m ds payload)
       = Inr (Handled (Some e)))"
  by (simp add: encodeBarrier_def decodeBarrier_def Handled_Some del: SafeDetails.simps)

text \<open>
  The instance: the "connection refused" error without cause, and a codec that
  transmits an error unchanged.
\<close>

theorem encode_decode_round_trip_witness:
  "(\<lambda>(c :: unit) enc. enc) () ((\<lambda>(c :: unit) err. err) () (Some (OtherError ''connection refused'' [] None)))
     = Some (OtherError ''connection refused'' [] None)
   \<and> (case encodeBarrier (\<lambda>(c :: unit) err. err) (\<lambda>x. ''*errors.errorString'') ()
             (Handled (Some (OtherError ''connection refused'' [] None))) of
        Inl pn \<Rightarrow> Inl pn
      | Inr (m, ds, payload) \<Rightarrow> decodeBarrier (\<lambda>(c :: unit) enc. enc) () m ds payload)
     = Inr (Handled (Some (OtherError ''connection refused'' [] None)))
   \<and> Handled (Some (OtherError ''connection refused'' [] None))
     = Some (barrierError ''connection refused'' (Some (OtherError ''connection refused'' [] None)))"
  using encode_decode_round_trip
    [where EncodeError = "\<lambda>(c :: unit) err. err" and ctx = "()"
       and typeName = "\<lambda>x. ''*errors.errorString''"
       and e = "OtherError ''connection refused'' [] None"
       and DecodeError = "\<lambda>(c :: unit) enc. enc" and ctx' = "()"]
  by (simp add: Handled_Some)

end
